theory Spec2Isabelle
  imports Complex_Main
begin

section \<open>Python values shared by the modules\<close>

text \<open>
  The exception classes that occur in the four modules. \<open>KeyboardInterrupt\<close> is the only
  one that is not a subclass of Python's \<open>Exception\<close>, so an \<open>except Exception\<close> clause
  lets it through. \<open>TransportError\<close> stands for what the HTTP client raises that is not a
  \<open>googleapiclient.errors.HttpError\<close> (a socket error, a timeout).
\<close>

datatype exn =
    HttpError
  | TransportError
  | RuntimeError
  | ValueError
  | OSError
  | NameError string
  | KeyboardInterrupt

definition is_Exception :: "exn \<Rightarrow> bool" where
  "is_Exception e = (e \<noteq> KeyboardInterrupt)"

text \<open>What a call does: it returns a value, raises, or has not come back within the
  part of the future the model was given (the loops of \<open>download_torrent\<close> have no timeout).\<close>

datatype 'a outcome = Returned 'a | Raised exn | Waiting

definition startswith :: "string \<Rightarrow> string \<Rightarrow> bool" where
  "startswith s pre = (take (length pre) s = pre)"

definition endswith :: "string \<Rightarrow> string \<Rightarrow> bool" where
  "endswith s suf = (length suf \<le> length s \<and> drop (length s - length suf) s = suf)"

text \<open>\<open>os.path.basename\<close> and \<open>os.path.join\<close> of posixpath, for one joined component.\<close>

definition basename :: "string \<Rightarrow> string" where
  "basename p = rev (takeWhile (\<lambda>c. c \<noteq> CHR ''/'') (rev p))"

definition join :: "string \<Rightarrow> string \<Rightarrow> string" where
  "join a b =
     (if startswith b ''/'' then b
      else if a = [] \<or> endswith a ''/'' then a @ b
      else a @ ''/'' @ b)"

text \<open>\<open>str(i)\<close> for an integer, as an f-string renders it.\<close>

definition digit_char :: "nat \<Rightarrow> char" where
  "digit_char d = ''0123456789'' ! d"

fun str_nat :: "nat \<Rightarrow> string" where
  "str_nat n = (if n < 10 then [digit_char n] else str_nat (n div 10) @ [digit_char (n mod 10)])"

declare str_nat.simps [simp del]

definition str_int :: "int \<Rightarrow> string" where
  "str_int i = (if i < 0 then CHR ''-'' # str_nat (nat (- i)) else str_nat (nat i))"

text \<open>
  \<open>int(x)\<close> of a float truncates towards zero; \<open>x % m\<close> on floats is \<open>x - m * floor(x / m)\<close>
  for a positive \<open>m\<close>. Floats are modelled by the reals they approximate: the quotients below
  are exact here and rounded to 53 bits in Python.
\<close>

definition py_int :: "real \<Rightarrow> int" where
  "py_int x = (if 0 \<le> x then \<lfloor>x\<rfloor> else \<lceil>x\<rceil>)"

definition py_fmod :: "real \<Rightarrow> real \<Rightarrow> real" where
  "py_fmod x m = x - m * of_int \<lfloor>x / m\<rfloor>"


section \<open>config.py\<close>

definition TORRENT_SESSION_FILE :: string where
  "TORRENT_SESSION_FILE = ''torrent_session.json''"

definition TORRENT_DOWNLOAD_PATH :: string where
  "TORRENT_DOWNLOAD_PATH = ''downloads''"

definition MAX_RETRIES :: nat where
  "MAX_RETRIES = 3"

definition RETRY_DELAY :: nat where
  "RETRY_DELAY = 2"

definition PROGRESS_FILE :: string where
  "PROGRESS_FILE = ''.gdrive_upload_progress.json''"


section \<open>torrent_downloader.py\<close>

subsection \<open>The transfer engine and the local disk\<close>

datatype torrent_state =
    checking_files
  | downloading_metadata
  | downloading
  | finished
  | seeding
  | checking_resume_data

text \<open>The fields of \<open>handle.status()\<close> that \<open>download_torrent\<close> reads. A rate is a number
  of bytes per second, never negative; the byte counts are Python integers.\<close>

record torrent_status =
  has_metadata :: bool
  status_name :: string
  state :: torrent_state
  download_rate :: nat
  total_wanted :: int
  total_done :: int

record add_torrent_params =
  save_path :: string
  url :: "string option"
  ti :: "string option"

record session =
  loaded_state :: "string option"
  settings :: "(string \<times> string) list"

text \<open>
  libtorrent is outside the repository. Its pure functions are parameters; its Python
  binding reports every failure as a \<open>RuntimeError\<close>, which is \<open>None\<close> (or \<open>False\<close>) here:
  \<^item> \<open>lt_bdecode\<close>: \<open>lt.bdecode\<close>, from bytes to a decoded entry;
  \<^item> \<open>lt_load_state\<close>: whether \<open>session.load_state\<close> accepts the entry;
  \<^item> \<open>lt_torrent_info\<close>: \<open>lt.torrent_info\<close> of a decoded entry;
  \<^item> \<open>lt_add_torrent\<close>: whether \<open>session.add_torrent\<close> accepts the parameters;
  \<^item> \<open>lt_save_state\<close>: \<open>lt.bencode(session.save_state())\<close>, the bytes of a session.
\<close>

record engine =
  lt_bdecode :: "string \<Rightarrow> string option"
  lt_load_state :: "string \<Rightarrow> bool"
  lt_torrent_info :: "string \<Rightarrow> string option"
  lt_add_torrent :: "add_torrent_params \<Rightarrow> bool"
  lt_save_state :: "session \<Rightarrow> string"

text \<open>
  One second of the future: the status the engine reports after it, or the user's
  interrupt arriving during the sleep.
\<close>

datatype tick = Status torrent_status | Ctrl_C

text \<open>
  What \<open>download_torrent\<close> acts on: the regular files of the disk with their bytes, the
  directories, the epoch second, the torrents handed to the engine, the status the engine
  reports now, the seconds to come, and the ETA texts put on the progress bar. The session
  path is looked up among the regular files: a directory at that path is outside the model.
\<close>

record world =
  disk_files :: "string \<rightharpoonup> string"
  disk_dirs :: "string set"
  clock :: nat
  torrents :: "add_torrent_params list"
  reported :: torrent_status
  upcoming :: "tick list"
  eta_shown :: "string list"

definition lt_session :: session where
  "lt_session = \<lparr>loaded_state = None, settings = []\<rparr>"

definition sleep1 :: "world \<Rightarrow> unit outcome \<times> world" where
  "sleep1 w =
     (case upcoming w of
        [] \<Rightarrow> (Waiting, w)
      | Ctrl_C # rest \<Rightarrow> (Raised KeyboardInterrupt, w\<lparr>upcoming := rest\<rparr>)
      | Status s # rest \<Rightarrow>
          (Returned (), w\<lparr>upcoming := rest, reported := s, clock := Suc (clock w)\<rparr>))"

subsection \<open>Session store\<close>

definition os_remove :: "world \<Rightarrow> string \<Rightarrow> world" where
  "os_remove w p = w\<lparr>disk_files := (disk_files w)(p := None)\<rparr>"

definition save_session :: "engine \<Rightarrow> session \<Rightarrow> string \<Rightarrow> world \<Rightarrow> world" where
  "save_session eng ses session_file w =
     w\<lparr>disk_files := (disk_files w)(session_file \<mapsto> lt_save_state eng ses)\<rparr>"

text \<open>The body of the \<open>try\<close> in \<open>load_session\<close>, lines 37 to 46.\<close>

definition read_session :: "engine \<Rightarrow> string \<Rightarrow> exn + session" where
  "read_session eng session_data =
     (if session_data = [] then Inl ValueError
      else case lt_bdecode eng session_data of
             None \<Rightarrow> Inl RuntimeError
           | Some session_state \<Rightarrow>
               if lt_load_state eng session_state
               then Inr (lt_session\<lparr>loaded_state := Some session_state\<rparr>)
               else Inl RuntimeError)"

definition load_session :: "engine \<Rightarrow> string \<Rightarrow> world \<Rightarrow> (exn + session) \<times> world" where
  "load_session eng session_file w =
     (case disk_files w session_file of
        Some session_data \<Rightarrow>
          (case read_session eng session_data of
             Inr ses \<Rightarrow> (Inr ses, w)
           | Inl e \<Rightarrow>
               if e = RuntimeError \<or> e = ValueError
               then (Inr lt_session, os_remove w session_file)
               else (Inl e, w))
      | None \<Rightarrow> (Inr lt_session, w))"

subsection \<open>Download monitor\<close>

definition eta_seconds :: "torrent_status \<Rightarrow> real" where
  "eta_seconds s = of_int (total_wanted s - total_done s) / of_nat (download_rate s)"

definition eta_str :: "torrent_status \<Rightarrow> string" where
  "eta_str s =
     (if download_rate s > 0 then
        (if eta_seconds s < 60 then str_int (py_int (eta_seconds s)) @ ''s''
         else if eta_seconds s < 3600 then
           str_int (py_int (eta_seconds s / 60)) @ ''m '' @
           str_int (py_int (py_fmod (eta_seconds s) 60)) @ ''s''
         else
           str_int (py_int (eta_seconds s / 3600)) @ ''h '' @
           str_int (py_int (py_fmod (eta_seconds s) 3600 / 60)) @ ''m'')
      else ''N/A'')"

definition path_exists :: "world \<Rightarrow> string \<Rightarrow> bool" where
  "path_exists w p = (disk_files w p \<noteq> None \<or> p \<in> disk_dirs w)"

text \<open>Lines 84 to 103: the parameters for the source, or \<open>None\<close> where the code returns
  \<open>None\<close>: for a source of neither kind, for a torrent path that does not exist, and for
  one that cannot be opened (a directory), decoded or parsed (\<open>except Exception\<close>).\<close>

definition source_params ::
  "engine \<Rightarrow> string \<Rightarrow> add_torrent_params \<Rightarrow> world \<Rightarrow> add_torrent_params option" where
  "source_params eng source params w =
     (if startswith source ''magnet:'' then Some (params\<lparr>url := Some source\<rparr>)
      else if endswith source ''.torrent'' then
        (if \<not> path_exists w source then None
         else case disk_files w source of
           None \<Rightarrow> None
         | Some bytes \<Rightarrow>
             (case lt_bdecode eng bytes of
                None \<Rightarrow> None
              | Some torrent_data \<Rightarrow>
                  (case lt_torrent_info eng torrent_data of
                     None \<Rightarrow> None
                   | Some info \<Rightarrow> Some (params\<lparr>ti := Some info\<rparr>))))
      else None)"

text \<open>Lines 65 to 111: everything before the two loops. The result is the session with the
  torrent added, \<open>None\<close> where the code returns \<open>None\<close>, or the exception of \<open>load_session\<close>.\<close>

definition submit ::
  "engine \<Rightarrow> string \<Rightarrow> string \<Rightarrow> string \<Rightarrow> bool \<Rightarrow> world \<Rightarrow> (exn + session option) \<times> world" where
  "submit eng source download_path session_file auto_resume w0 =
     (let w1 = (if path_exists w0 download_path then w0
                else w0\<lparr>disk_dirs := insert download_path (disk_dirs w0)\<rparr>)
      in case (if auto_resume then load_session eng session_file w1 else (Inr lt_session, w1)) of
           (Inl e, w2) \<Rightarrow> (Inl e, w2)
         | (Inr ses0, w2) \<Rightarrow>
             (let ses = ses0\<lparr>settings := [(''listen_interfaces'', ''0.0.0.0:6881'')]\<rparr>;
                  params = \<lparr>save_path = download_path, url = None, ti = None\<rparr>
              in case source_params eng source params w2 of
                   None \<Rightarrow> (Inr None, w2)
                 | Some p \<Rightarrow>
                     if lt_add_torrent eng p
                     then (Inr (Some ses), w2\<lparr>torrents := torrents w2 @ [p]\<rparr>)
                     else (Inr None, w2)))"

text \<open>Lines 115 and 116: \<open>while not handle.status().has_metadata: time.sleep(1)\<close>.\<close>

function wait_for_metadata :: "world \<Rightarrow> unit outcome \<times> world" where
  "wait_for_metadata w =
     (if has_metadata (reported w) then (Returned (), w)
      else case sleep1 w of
             (Returned u, w') \<Rightarrow> wait_for_metadata w'
           | (Raised e, w') \<Rightarrow> (Raised e, w')
           | (Waiting, w') \<Rightarrow> (Waiting, w'))"
  by pat_completeness auto
termination
  by (relation "measure (\<lambda>w. length (upcoming w))")
     (auto simp: sleep1_def split: list.splits tick.splits)

declare wait_for_metadata.simps [simp del]

text \<open>Lines 126 to 167: the polling loop, without the \<open>except\<close> clause around it.\<close>

function poll :: "engine \<Rightarrow> session \<Rightarrow> string \<Rightarrow> world \<Rightarrow> unit outcome \<times> world" where
  "poll eng ses session_file w =
     (if state (reported w) = seeding then (Returned (), w)
      else
        (let w1 = w\<lparr>eta_shown := eta_shown w @ [eta_str (reported w)]\<rparr>;
             w2 = (if clock w1 mod 10 = 0 then save_session eng ses session_file w1 else w1)
         in case sleep1 w2 of
              (Returned u, w3) \<Rightarrow> poll eng ses session_file w3
            | (Raised e, w3) \<Rightarrow> (Raised e, w3)
            | (Waiting, w3) \<Rightarrow> (Waiting, w3)))"
  by pat_completeness auto
termination
  by (relation "measure (\<lambda>(eng, ses, session_file, w). length (upcoming w))")
     (auto simp: sleep1_def save_session_def split: list.splits tick.splits if_splits)

declare poll.simps [simp del]

definition download_torrent ::
  "engine \<Rightarrow> string \<Rightarrow> string \<Rightarrow> string \<Rightarrow> bool \<Rightarrow> world \<Rightarrow> string option outcome \<times> world" where
  "download_torrent eng source download_path session_file auto_resume w0 =
     (case submit eng source download_path session_file auto_resume w0 of
        (Inl e, w1) \<Rightarrow> (Raised e, w1)
      | (Inr None, w1) \<Rightarrow> (Returned None, w1)
      | (Inr (Some ses), w1) \<Rightarrow>
          (case wait_for_metadata w1 of
             (Raised e, w2) \<Rightarrow> (Raised e, w2)
           | (Waiting, w2) \<Rightarrow> (Waiting, w2)
           | (Returned u, w2) \<Rightarrow>
               (let torrent_name = status_name (reported w2)
                in case poll eng ses session_file w2 of
                     (Raised e, w3) \<Rightarrow>
                       if e = KeyboardInterrupt
                       then (Returned None, save_session eng ses session_file w3)
                       else (Raised e, w3)
                   | (Waiting, w3) \<Rightarrow> (Waiting, w3)
                   | (Returned u', w3) \<Rightarrow>
                       (Returned (Some (join download_path torrent_name)),
                        os_remove w3 session_file))))"




section \<open>gdrive_uploader.py\<close>

subsection \<open>The Drive service\<close>

text \<open>
  The remote account is a list of objects in the order of their creation. Identifiers are
  numbers here (Drive's are non-empty strings, so \<open>if file_id:\<close> holds for every
  identifier). The text of a query and its quoting are not modelled: a lookup asks for a
  name under a parent, and the service answers with the oldest match (\<open>pageSize=1\<close>).
\<close>

record remote_object =
  obj_id :: nat
  obj_name :: string
  obj_parent :: nat
  obj_folder :: bool
  obj_trashed :: bool

datatype call =
    ListFiles string nat
  | ListFolders string nat
  | NextChunk string nat nat
  | CreateFolder string nat


text \<open>
  \<open>faults\<close> is what the service will do to the requests to come, one entry per request:
  \<open>None\<close> lets the request through, \<open>Some e\<close> makes it raise \<open>e\<close>; past the end every
  request succeeds. \<open>calls\<close> records the requests made.
\<close>

record drive =
  objects :: "remote_object list"
  next_id :: nat
  faults :: "exn option list"
  calls :: "call list"

definition request :: "call \<Rightarrow> drive \<Rightarrow> exn option \<times> drive" where
  "request c d =
     (case faults d of
        [] \<Rightarrow> (None, d\<lparr>calls := calls d @ [c]\<rparr>)
      | f # rest \<Rightarrow> (f, d\<lparr>faults := rest, calls := calls d @ [c]\<rparr>))"

definition new_object :: "string \<Rightarrow> nat \<Rightarrow> bool \<Rightarrow> drive \<Rightarrow> drive" where
  "new_object object_name parent_id folder d =
     d\<lparr>objects := objects d @
          [\<lparr>obj_id = next_id d, obj_name = object_name, obj_parent = parent_id,
            obj_folder = folder, obj_trashed = False\<rparr>],
       next_id := Suc (next_id d)\<rparr>"

text \<open>The chunk size of \<open>MediaFileUpload\<close> when none is given, as here.\<close>

definition DEFAULT_CHUNK_SIZE :: nat where
  "DEFAULT_CHUNK_SIZE = 100 * 1024 * 1024"

subsection \<open>SimpleDriveUploader\<close>

definition is_file_match :: "string \<Rightarrow> nat \<Rightarrow> remote_object \<Rightarrow> bool" where
  "is_file_match file_name parent_id ob =
     (obj_name ob = file_name \<and> obj_parent ob = parent_id \<and> \<not> obj_trashed ob)"

definition is_folder_match :: "string \<Rightarrow> nat \<Rightarrow> remote_object \<Rightarrow> bool" where
  "is_folder_match folder_name parent_id ob =
     (obj_name ob = folder_name \<and> obj_parent ob = parent_id \<and> obj_folder ob \<and> \<not> obj_trashed ob)"

definition file_exists :: "string \<Rightarrow> nat \<Rightarrow> drive \<Rightarrow> (exn + remote_object option) \<times> drive" where
  "file_exists file_name parent_id d =
     (case request (ListFiles file_name parent_id) d of
        (None, d') \<Rightarrow> (Inr (find (is_file_match file_name parent_id) (objects d')), d')
      | (Some e, d') \<Rightarrow> if e = HttpError then (Inr None, d') else (Inl e, d'))"

definition folder_exists :: "string \<Rightarrow> nat \<Rightarrow> drive \<Rightarrow> (exn + nat option) \<times> drive" where
  "folder_exists folder_name parent_id d =
     (case request (ListFolders folder_name parent_id) d of
        (None, d') \<Rightarrow>
          (Inr (map_option obj_id (find (is_folder_match folder_name parent_id) (objects d'))), d')
      | (Some e, d') \<Rightarrow> if e = HttpError then (Inr None, d') else (Inl e, d'))"

text \<open>Lines 252 to 257: \<open>while response is None: status, response = request.next_chunk()\<close>.
  The last chunk creates the file and answers with its identifier.\<close>

function next_chunks :: "string \<Rightarrow> nat \<Rightarrow> nat \<Rightarrow> nat \<Rightarrow> drive \<Rightarrow> (exn + nat) \<times> drive" where
  "next_chunks file_name parent_id total_size previous_uploaded d =
     (case request (NextChunk file_name parent_id previous_uploaded) d of
        (Some e, d') \<Rightarrow> (Inl e, d')
      | (None, d') \<Rightarrow>
          if total_size \<le> previous_uploaded + DEFAULT_CHUNK_SIZE
          then (Inr (next_id d'), new_object file_name parent_id False d')
          else next_chunks file_name parent_id total_size
                 (previous_uploaded + DEFAULT_CHUNK_SIZE) d')"
  by pat_completeness auto
termination
  by (relation "measure (\<lambda>(file_name, parent_id, total_size, previous_uploaded, d).
                  total_size - previous_uploaded)")
     (auto simp: DEFAULT_CHUNK_SIZE_def)

declare next_chunks.simps [simp del]

definition upload_file ::
  "bool \<Rightarrow> string \<Rightarrow> nat \<Rightarrow> nat \<Rightarrow> drive \<Rightarrow> (exn + nat option) \<times> drive" where
  "upload_file skip_existing local_path total_size parent_id d =
     (let file_name = basename local_path
      in case (if skip_existing then file_exists file_name parent_id d else (Inr None, d)) of
           (Inl e, d1) \<Rightarrow> (Inl e, d1)
         | (Inr (Some existing), d1) \<Rightarrow> (Inr (Some (obj_id existing)), d1)
         | (Inr None, d1) \<Rightarrow>
             (case next_chunks file_name parent_id total_size 0 d1 of
                (Inr file_id, d2) \<Rightarrow> (Inr (Some file_id), d2)
              | (Inl e, d2) \<Rightarrow> if is_Exception e then (Inr None, d2) else (Inl e, d2)))"

definition create_folder :: "bool \<Rightarrow> string \<Rightarrow> nat \<Rightarrow> drive \<Rightarrow> (exn + nat option) \<times> drive" where
  "create_folder skip_existing folder_name parent_id d =
     (case (if skip_existing then folder_exists folder_name parent_id d else (Inr None, d)) of
        (Inl e, d1) \<Rightarrow> (Inl e, d1)
      | (Inr (Some existing_id), d1) \<Rightarrow> (Inr (Some existing_id), d1)
      | (Inr None, d1) \<Rightarrow>
          (case request (CreateFolder folder_name parent_id) d1 of
             (None, d2) \<Rightarrow> (Inr (Some (next_id d2)), new_object folder_name parent_id True d2)
           | (Some e, d2) \<Rightarrow> if is_Exception e then (Inr None, d2) else (Inl e, d2)))"

subsection \<open>The local tree\<close>

text \<open>
  What a local path names: a regular file with its size, a directory with its entries in
  \<open>os.listdir\<close> order, a directory that cannot be listed, something that exists and is
  neither (a FIFO, a socket), or nothing (a missing path, a dangling symbolic link).
  Symbolic links to directories are not modelled.
\<close>

datatype entry =
    File nat
  | Dir "(string \<times> entry) list"
  | Unreadable
  | Special nat
  | Missing



record stats =
  files :: nat
  folders :: nat
  total_size :: nat

definition add_stats :: "stats \<Rightarrow> stats \<Rightarrow> stats" where
  "add_stats a b =
     \<lparr>files = files a + files b, folders = folders a + folders b,
      total_size = total_size a + total_size b\<rparr>"



subsection \<open>Upload orchestration\<close>

record results =
  success :: "string list"
  failed :: "string list"
  skipped :: "string list"

definition no_results :: results where
  "no_results = \<lparr>success = [], failed = [], skipped = []\<rparr>"

definition extend_results :: "results \<Rightarrow> results \<Rightarrow> results" where
  "extend_results r sub_results =
     \<lparr>success = success r @ success sub_results,
      failed = failed r @ failed sub_results,
      skipped = skipped r @ skipped sub_results\<rparr>"

text \<open>
  \<open>upload_to_drive\<close>, lines 346 to 413; \<open>upload_items\<close> is its loop over \<open>os.listdir\<close>, which
  stops at the first exception of a child and hands it to the \<open>except Exception\<close> clause of
  line 403 together with the results gathered so far. The call of \<open>count_items\<close> in line 370
  only feeds the log.
\<close>

fun upload_to_drive ::
    "bool \<Rightarrow> string \<Rightarrow> entry \<Rightarrow> nat \<Rightarrow> drive \<Rightarrow> (exn + results) \<times> drive"
  and upload_items ::
    "bool \<Rightarrow> string \<Rightarrow> (string \<times> entry) list \<Rightarrow> nat \<Rightarrow> results \<Rightarrow> drive
       \<Rightarrow> (exn option \<times> results) \<times> drive" where
  "upload_to_drive skip_existing local_path Missing parent_id d =
     (Inr (no_results\<lparr>failed := [local_path]\<rparr>), d)"
| "upload_to_drive skip_existing local_path (File n) parent_id d =
     (case (if skip_existing then file_exists (basename local_path) parent_id d
            else (Inr None, d)) of
        (Inl e, d1) \<Rightarrow> (Inl e, d1)
      | (Inr (Some existing), d1) \<Rightarrow> (Inr (no_results\<lparr>skipped := [local_path]\<rparr>), d1)
      | (Inr None, d1) \<Rightarrow>
          (case upload_file skip_existing local_path n parent_id d1 of
             (Inl e, d2) \<Rightarrow> (Inl e, d2)
           | (Inr (Some file_id), d2) \<Rightarrow> (Inr (no_results\<lparr>success := [local_path]\<rparr>), d2)
           | (Inr None, d2) \<Rightarrow> (Inr (no_results\<lparr>failed := [local_path]\<rparr>), d2)))"
| "upload_to_drive skip_existing local_path (Dir items) parent_id d =
     (case create_folder skip_existing (basename local_path) parent_id d of
        (Inl e, d1) \<Rightarrow> (Inl e, d1)
      | (Inr None, d1) \<Rightarrow> (Inr (no_results\<lparr>failed := [local_path]\<rparr>), d1)
      | (Inr (Some folder_id), d1) \<Rightarrow>
          (case upload_items skip_existing local_path items folder_id no_results d1 of
             ((None, res), d2) \<Rightarrow> (Inr res, d2)
           | ((Some e, res), d2) \<Rightarrow>
               if is_Exception e then (Inr (res\<lparr>failed := failed res @ [local_path]\<rparr>), d2)
               else (Inl e, d2)))"
| "upload_to_drive skip_existing local_path Unreadable parent_id d =
     (case create_folder skip_existing (basename local_path) parent_id d of
        (Inl e, d1) \<Rightarrow> (Inl e, d1)
      | (Inr None, d1) \<Rightarrow> (Inr (no_results\<lparr>failed := [local_path]\<rparr>), d1)
      | (Inr (Some folder_id), d1) \<Rightarrow> (Inr (no_results\<lparr>failed := [local_path]\<rparr>), d1))"
| "upload_to_drive skip_existing local_path (Special n) parent_id d =
     (Inr (no_results\<lparr>failed := [local_path]\<rparr>), d)"
| "upload_items skip_existing local_path [] folder_id res d = ((None, res), d)"
| "upload_items skip_existing local_path ((item, e) # rest) folder_id res d =
     (case upload_to_drive skip_existing (join local_path item) e folder_id d of
        (Inl ex, d1) \<Rightarrow> ((Some ex, res), d1)
      | (Inr sub_results, d1) \<Rightarrow>
          upload_items skip_existing local_path rest folder_id (extend_results res sub_results) d1)"

subsection \<open>Module level\<close>

text \<open>The module's globals: \<open>IN_COLAB\<close>, whether \<open>_DRIVE_SERVICE\<close> is set, \<open>_ERROR_SHOWN\<close>.\<close>

record globals =
  IN_COLAB :: bool
  DRIVE_SERVICE_set :: bool
  ERROR_SHOWN :: bool

definition get_drive_service :: "globals \<Rightarrow> (exn + unit) \<times> globals" where
  "get_drive_service g =
     (if \<not> IN_COLAB g then (Inl RuntimeError, g)
      else if \<not> DRIVE_SERVICE_set g then (Inl RuntimeError, g\<lparr>ERROR_SHOWN := True\<rparr>)
      else (Inr (), g))"

text \<open>The keyword arguments that callers pass to \<open>upload_to_google_drive\<close>; \<open>None\<close> is a
  keyword left out. \<open>kw_drive_service\<close> tells whether a service object was passed.\<close>

record kwargs =
  kw_skip_existing :: "bool option"
  kw_drive_service :: bool
  kw_parallel :: "bool option"
  kw_include_patterns :: "string list option"
  kw_exclude_patterns :: "string list option"
  kw_dry_run :: "bool option"
  kw_use_progress :: "bool option"

definition upload_to_google_drive ::
  "string \<Rightarrow> entry \<Rightarrow> nat \<Rightarrow> kwargs \<Rightarrow> globals \<times> drive \<Rightarrow> (exn + results) \<times> globals \<times> drive" where
  "upload_to_google_drive local_path e folder_id kw gd =
     (let skip_existing = (case kw_skip_existing kw of None \<Rightarrow> True | Some b \<Rightarrow> b)
      in case (if kw_drive_service kw then (Inr (), fst gd) else get_drive_service (fst gd)) of
           (Inl ex, g) \<Rightarrow> (Inl ex, g, snd gd)
         | (Inr u, g) \<Rightarrow>
             (case upload_to_drive skip_existing local_path e folder_id (snd gd) of
                (r, d) \<Rightarrow> (r, g, d)))"


section \<open>main.py\<close>

record upload_args =
  arg_path :: string
  arg_folder_id :: nat
  arg_no_skip :: bool
  arg_parallel :: bool
  arg_include :: "string list option"
  arg_exclude :: "string list option"
  arg_dry_run :: bool
  arg_no_resume :: bool

definition truthy :: "string list option \<Rightarrow> bool" where
  "truthy v = (case v of None \<Rightarrow> False | Some xs \<Rightarrow> xs \<noteq> [])"

text \<open>
  \<open>handle_upload\<close>, lines 194 to 227. Line 13 of main.py, the import of
  \<open>upload_to_google_drive\<close>, \<open>PatternMatcher\<close> and \<open>ProgressTracker\<close>, is commented out, and
  gdrive_uploader.py defines the first alone: each of the three names raises \<open>NameError\<close>
  where it is evaluated, so no statement after line 211 is reached.
\<close>

definition handle_upload ::
  "upload_args \<Rightarrow> entry \<Rightarrow> globals \<times> drive \<Rightarrow> (exn + nat) \<times> globals \<times> drive" where
  "handle_upload args e gd =
     (if arg_no_resume args then (Inl (NameError ''ProgressTracker''), gd)
      else if truthy (arg_include args) \<or> truthy (arg_exclude args)
      then (Inl (NameError ''PatternMatcher''), gd)
      else (Inl (NameError ''upload_to_google_drive''), gd))"

text \<open>The keyword arguments of the call in lines 211 to 220.\<close>

definition handle_upload_kwargs :: "upload_args \<Rightarrow> kwargs" where
  "handle_upload_kwargs args =
     \<lparr>kw_skip_existing = Some (\<not> arg_no_skip args),
      kw_drive_service = False,
      kw_parallel = Some (arg_parallel args),
      kw_include_patterns = arg_include args,
      kw_exclude_patterns = arg_exclude args,
      kw_dry_run = Some (arg_dry_run args),
      kw_use_progress = Some (\<not> arg_no_resume args)\<rparr>"


section \<open>Notions used in the statements\<close>






text \<open>The number of outcomes in a result set.\<close>

definition n_outcomes :: "results \<Rightarrow> nat" where
  "n_outcomes r = length (success r) + length (skipped r) + length (failed r)"


section \<open>Concrete inputs\<close>

text \<open>An engine that accepts the bytes \<open>de\<close> alone, statuses of a download named
  \<open>movie\<close>, and a disk without directories.\<close>

definition example_engine :: engine where
  "example_engine =
     \<lparr>lt_bdecode = (\<lambda>bytes. if bytes = ''de'' then Some ''{}'' else None),
      lt_load_state = (\<lambda>session_state. True),
      lt_torrent_info = (\<lambda>torrent_data. Some torrent_data),
      lt_add_torrent = (\<lambda>p. True),
      lt_save_state = (\<lambda>ses. ''de'')\<rparr>"

definition example_status :: "bool \<Rightarrow> nat \<Rightarrow> int \<Rightarrow> torrent_status" where
  "example_status metadata rate remaining =
     \<lparr>has_metadata = metadata, status_name = ''movie'', state = downloading,
      download_rate = rate, total_wanted = remaining, total_done = 0\<rparr>"

definition example_world :: "(string \<rightharpoonup> string) \<Rightarrow> torrent_status \<Rightarrow> tick list \<Rightarrow> world" where
  "example_world fs s ticks =
     \<lparr>disk_files = fs, disk_dirs = {}, clock = 1, torrents = [], reported = s,
      upcoming = ticks, eta_shown = []\<rparr>"

text \<open>A Drive account without objects, a notebook with the service registered, the
  arguments of an \<open>upload\<close> command and a folder of two files.\<close>

definition empty_drive :: "exn option list \<Rightarrow> drive" where
  "empty_drive fs = \<lparr>objects = [], next_id = 1, faults = fs, calls = []\<rparr>"

definition colab_ready :: globals where
  "colab_ready = \<lparr>IN_COLAB = True, DRIVE_SERVICE_set = True, ERROR_SHOWN = False\<rparr>"

definition example_args :: "string list option \<Rightarrow> bool \<Rightarrow> bool \<Rightarrow> upload_args" where
  "example_args include dry no_resume =
     \<lparr>arg_path = ''/content/clips'', arg_folder_id = 7, arg_no_skip = False,
      arg_parallel = False, arg_include = include, arg_exclude = None,
      arg_dry_run = dry, arg_no_resume = no_resume\<rparr>"

definition example_clips :: entry where
  "example_clips = Dir [(''movie.mp4'', File 700), (''notes.txt'', File 12)]"


section \<open>Properties of torrent_downloader.py\<close>

subsection \<open>Arithmetic of the ETA\<close>

lemma py_int_nonneg: "0 \<le> x \<Longrightarrow> py_int x = \<lfloor>x\<rfloor>"
  by (simp add: py_int_def)

lemma py_int_div: "0 \<le> x \<Longrightarrow> 0 < b \<Longrightarrow> py_int (x / of_int b) = \<lfloor>x\<rfloor> div b"
  by (simp add: py_int_def floor_divide_real_eq_div)

lemma py_fmod_floor: "0 < b \<Longrightarrow> \<lfloor>py_fmod x (of_int b)\<rfloor> = \<lfloor>x\<rfloor> mod b"
proof -
  assume b: "0 < b"
  have "py_fmod x (of_int b) = x - of_int (b * \<lfloor>x / of_int b\<rfloor>)"
    by (simp add: py_fmod_def)
  then have "\<lfloor>py_fmod x (of_int b)\<rfloor> = \<lfloor>x\<rfloor> - b * \<lfloor>x / of_int b\<rfloor>"
    by (simp only: floor_diff_of_int)
  also have "\<lfloor>x / of_int b\<rfloor> = \<lfloor>x\<rfloor> div b"
    using b by (simp add: floor_divide_real_eq_div)
  finally show ?thesis
    by (simp add: minus_mult_div_eq_mod)
qed

lemma py_fmod_nonneg: "0 < m \<Longrightarrow> 0 \<le> py_fmod x m"
proof -
  assume m: "0 < m"
  have "m * of_int \<lfloor>x / m\<rfloor> \<le> m * (x / m)"
    using m by (intro mult_left_mono) simp_all
  also have "m * (x / m) = x" using m by simp
  finally show ?thesis by (simp add: py_fmod_def)
qed

lemma py_int_fmod: "0 < b \<Longrightarrow> py_int (py_fmod x (of_int b)) = \<lfloor>x\<rfloor> mod b"
  using py_fmod_nonneg [of "of_int b" x] py_fmod_floor [of b x]
  by (simp add: py_int_def)

lemma py_int_fmod_div:
  "0 < b \<Longrightarrow> 0 < c \<Longrightarrow> py_int (py_fmod x (of_int b) / of_int c) = \<lfloor>x\<rfloor> mod b div c"
  using py_fmod_nonneg [of "of_int b" x] py_fmod_floor [of b x]
  by (simp add: py_int_div)

lemma snoc_ne_NA: "xs @ [CHR ''s''] \<noteq> ''N/A''" "xs @ [CHR ''m''] \<noteq> ''N/A''"
proof -
  have "last (xs @ [CHR ''s'']) \<noteq> last ''N/A''" by simp
  then show "xs @ [CHR ''s''] \<noteq> ''N/A''" by metis
  have "last (xs @ [CHR ''m'']) \<noteq> last ''N/A''" by simp
  then show "xs @ [CHR ''m''] \<noteq> ''N/A''" by metis
qed

lemma eta_str_NA: "(eta_str s = ''N/A'') = (download_rate s = 0)"
proof (cases "download_rate s = 0")
  case True
  then show ?thesis by (simp add: eta_str_def)
next
  case False
  have a: "\<And>xs ys. xs @ ys @ ''s'' \<noteq> ''N/A''" "\<And>xs ys. xs @ ys @ ''m'' \<noteq> ''N/A''"
    using snoc_ne_NA by (metis append_assoc)+
  from False show ?thesis
    using snoc_ne_NA a by (simp add: eta_str_def del: append_assoc)
qed

lemma eta_str_units:
  assumes "0 < download_rate s"
  shows "eta_str s =
        (let t = py_int (eta_seconds s) in
         if eta_seconds s < 60 then str_int t @ ''s''
         else if eta_seconds s < 3600 then
           str_int (t div 60) @ ''m '' @ str_int (t mod 60) @ ''s''
         else str_int (t div 3600) @ ''h '' @ str_int (t mod 3600 div 60) @ ''m'')"
proof (cases "eta_seconds s < 60")
  case True
  then show ?thesis using assms by (simp add: eta_str_def)
next
  case False
  then have pos: "0 \<le> eta_seconds s" by simp
  have m: "py_int (eta_seconds s / 60) = \<lfloor>eta_seconds s\<rfloor> div 60"
    using py_int_div [OF pos, of 60] by simp
  have sec: "py_int (py_fmod (eta_seconds s) 60) = \<lfloor>eta_seconds s\<rfloor> mod 60"
    using py_int_fmod [of 60 "eta_seconds s"] by simp
  have h: "py_int (eta_seconds s / 3600) = \<lfloor>eta_seconds s\<rfloor> div 3600"
    using py_int_div [OF pos, of 3600] by simp
  have hm: "py_int (py_fmod (eta_seconds s) 3600 / 60) = \<lfloor>eta_seconds s\<rfloor> mod 3600 div 60"
    using py_int_fmod_div [of 3600 60 "eta_seconds s"] by simp
  show ?thesis
    using assms False pos by (simp add: eta_str_def m sec h hm py_int_nonneg Let_def)
qed

lemma str_int_30: "str_int 30 = ''30''" "str_int 1 = ''1''"
  by (simp_all add: str_int_def str_nat.simps digit_char_def)

lemma eta_90:
  assumes "0 < download_rate s" "total_wanted s - total_done s = 90 * int (download_rate s)"
  shows "eta_str s = ''1m 30s''"
proof -
  have e: "eta_seconds s = 90" using assms by (simp add: eta_seconds_def)
  show ?thesis using assms(1) by (simp add: eta_str_units e py_int_def str_int_30)
qed

lemma eta_5400:
  assumes "0 < download_rate s" "total_wanted s - total_done s = 5400 * int (download_rate s)"
  shows "eta_str s = ''1h 30m''"
proof -
  have e: "eta_seconds s = 5400" using assms by (simp add: eta_seconds_def)
  show ?thesis using assms(1) by (simp add: eta_str_units e py_int_def str_int_30)
qed

text \<open>
  Claim C8. The ETA text is \<open>N/A\<close> exactly when the download rate is zero. Otherwise it is
  the remaining bytes divided by the rate, shown in the largest unit that applies: with
  \<open>t\<close> the whole seconds, \<open>t\<close>s below a minute, \<open>t div 60\<close>m \<open>t mod 60\<close>s below an hour,
  and \<open>t div 3600\<close>h \<open>t mod 3600 div 60\<close>m from an hour on. A remaining time of 90 seconds
  reads \<open>1m 30s\<close> and one of 5400 seconds reads \<open>1h 30m\<close>.
\<close>

theorem eta_policy:
  "(eta_str s = ''N/A'' \<longleftrightarrow> download_rate s = 0) \<and>
   (0 < download_rate s \<longrightarrow>
      eta_str s =
        (let t = py_int (eta_seconds s) in
         if eta_seconds s < 60 then str_int t @ ''s''
         else if eta_seconds s < 3600 then
           str_int (t div 60) @ ''m '' @ str_int (t mod 60) @ ''s''
         else str_int (t div 3600) @ ''h '' @ str_int (t mod 3600 div 60) @ ''m'')) \<and>
   (0 < download_rate s \<and> total_wanted s - total_done s = 90 * int (download_rate s) \<longrightarrow>
      eta_str s = ''1m 30s'') \<and>
   (0 < download_rate s \<and> total_wanted s - total_done s = 5400 * int (download_rate s) \<longrightarrow>
      eta_str s = ''1h 30m'')"
  using eta_str_NA [of s] eta_str_units [of s] eta_90 [of s] eta_5400 [of s]
  by blast

theorem eta_policy_witness:
  "eta_str (example_status True 2048 184320) = ''1m 30s'' \<and>
   eta_str (example_status True 2048 11059200) = ''1h 30m'' \<and>
   eta_str (example_status True 2048 20480) = ''10s'' \<and>
   eta_str (example_status True 0 20480) = ''N/A''"
  using eta_policy [of "example_status True 2048 184320"]
        eta_policy [of "example_status True 2048 11059200"]
        eta_policy [of "example_status True 2048 20480"]
        eta_policy [of "example_status True 0 20480"]
  by (simp add: example_status_def eta_seconds_def py_int_def str_int_def str_nat.simps
        digit_char_def)

subsection \<open>Loading a session\<close>


lemma read_session_cases:
  "read_session eng d = Inl ValueError \<or> read_session eng d = Inl RuntimeError \<or>
   (\<exists>ses. read_session eng d = Inr ses)"
  by (simp add: read_session_def split: option.split)

lemma load_session_returns: "\<exists>ses w'. load_session eng sf w = (Inr ses, w')"
proof (cases "disk_files w sf")
  case None
  then show ?thesis by (simp add: load_session_def)
next
  case (Some d)
  then show ?thesis
    using read_session_cases [of eng d] by (auto simp: load_session_def)
qed




subsection \<open>Rejected sources\<close>

lemma load_session_frame:
  "torrents (snd (load_session eng sf w)) = torrents w \<and>
   upcoming (snd (load_session eng sf w)) = upcoming w \<and>
   reported (snd (load_session eng sf w)) = reported w \<and>
   (disk_files w p = None \<longrightarrow> disk_files (snd (load_session eng sf w)) p = None)"
proof (cases "disk_files w sf")
  case None
  then show ?thesis by (simp add: load_session_def)
next
  case (Some d)
  then show ?thesis
    using read_session_cases [of eng d] by (auto simp: load_session_def os_remove_def)
qed

lemma submit_None:
  assumes "\<not> startswith source ''magnet:''"
      and "\<not> endswith source ''.torrent'' \<or> \<not> path_exists w source"
  shows "\<exists>w'. submit eng source dp sf ar w = (Inr None, w') \<and> torrents w' = torrents w"
proof -
  define w1 where "w1 = (if path_exists w dp then w else w\<lparr>disk_dirs := insert dp (disk_dirs w)\<rparr>)"
  define r where "r = (if ar then load_session eng sf w1 else (Inr lt_session, w1))"
  obtain ses0 w2 where ld: "r = (Inr ses0, w2)"
    using load_session_returns [of eng sf w1] by (cases ar) (auto simp: r_def)
  have f1: "torrents w1 = torrents w" "disk_files w source = None \<Longrightarrow> disk_files w1 source = None"
    by (simp_all add: w1_def)
  have f2: "torrents w2 = torrents w1" "disk_files w1 source = None \<Longrightarrow> disk_files w2 source = None"
    using ld load_session_frame [of eng sf w1 source] by (cases ar; simp add: r_def)+
  have "source_params eng source params w2 = None" for params
    using assms f1 f2 by (auto simp: source_params_def path_exists_def split: option.splits)
  then show ?thesis
    using ld f1 f2 by (simp add: submit_def Let_def w1_def [symmetric] r_def [symmetric])
qed

lemma submit_keeps_absent:
  assumes "submit eng source dp sf ar w = (r, w1)" and "disk_files w p = None"
  shows "disk_files w1 p = None"
proof -
  define w0 where "w0 = (if path_exists w dp then w else w\<lparr>disk_dirs := insert dp (disk_dirs w)\<rparr>)"
  define l where "l = (if ar then load_session eng sf w0 else (Inr lt_session, w0))"
  obtain ses0 w2 where ld: "l = (Inr ses0, w2)"
    using load_session_returns [of eng sf w0] by (cases ar) (auto simp: l_def)
  have "disk_files w0 p = None" using assms(2) by (simp add: w0_def)
  then have w2: "disk_files w2 p = None"
    using ld load_session_frame [of eng sf w0 p] by (cases ar; simp add: l_def)
  have "disk_files w1 = disk_files w2"
    using assms(1) ld
    by (auto simp: submit_def Let_def w0_def [symmetric] l_def [symmetric]
             split: option.splits if_splits)
  with w2 show ?thesis by simp
qed

text \<open>
  Claim C9. \<open>download_torrent\<close> returns \<open>None\<close> and hands no torrent to the engine when
  the source neither starts with \<open>magnet:\<close> nor ends with \<open>.torrent\<close>, and likewise when it
  is a \<open>.torrent\<close> path (not a magnet link) that does not exist.
\<close>

theorem download_torrent_rejects_source:
  assumes "\<not> startswith source ''magnet:''"
      and "\<not> endswith source ''.torrent'' \<or> \<not> path_exists w source"
  shows "fst (download_torrent eng source dp sf ar w) = Returned None \<and>
         torrents (snd (download_torrent eng source dp sf ar w)) = torrents w"
  using submit_None [OF assms, of eng dp sf ar]
  by (auto simp: download_torrent_def)

theorem download_torrent_rejects_source_witness:
  "fst (download_torrent example_engine ''movie.mkv'' TORRENT_DOWNLOAD_PATH TORRENT_SESSION_FILE True
          (example_world Map.empty (example_status False 0 0) [])) = Returned None \<and>
   fst (download_torrent example_engine ''movie.torrent'' TORRENT_DOWNLOAD_PATH TORRENT_SESSION_FILE True
          (example_world Map.empty (example_status False 0 0) [])) = Returned None"
  using download_torrent_rejects_source [of "''movie.mkv''"
          "example_world Map.empty (example_status False 0 0) []" example_engine
          TORRENT_DOWNLOAD_PATH TORRENT_SESSION_FILE True]
        download_torrent_rejects_source [of "''movie.torrent''"
          "example_world Map.empty (example_status False 0 0) []" example_engine
          TORRENT_DOWNLOAD_PATH TORRENT_SESSION_FILE True]
  by (simp add: startswith_def endswith_def path_exists_def example_world_def)

subsection \<open>Interrupts\<close>

lemma sleep1_Status:
  "upcoming w = Status s # rest \<Longrightarrow>
   sleep1 w = (Returned (), w\<lparr>upcoming := rest, reported := s, clock := Suc (clock w)\<rparr>)"
  by (simp add: sleep1_def)

lemma sleep1_Ctrl_C:
  "upcoming w = Ctrl_C # rest \<Longrightarrow> sleep1 w = (Raised KeyboardInterrupt, w\<lparr>upcoming := rest\<rparr>)"
  by (simp add: sleep1_def)

lemma wait_interrupted:
  "upcoming w = map Status ss @ Ctrl_C # rest \<Longrightarrow>
   \<forall>s \<in> set (reported w # ss). \<not> has_metadata s \<Longrightarrow>
   \<exists>w'. wait_for_metadata w = (Raised KeyboardInterrupt, w') \<and> disk_files w' = disk_files w"
proof (induction ss arbitrary: w)
  case Nil
  then show ?case
    by (subst wait_for_metadata.simps) (simp add: sleep1_Ctrl_C)
next
  case (Cons s ss)
  let ?w = "w\<lparr>upcoming := map Status ss @ Ctrl_C # rest, reported := s, clock := Suc (clock w)\<rparr>"
  have "\<exists>w'. wait_for_metadata ?w = (Raised KeyboardInterrupt, w') \<and> disk_files w' = disk_files ?w"
    using Cons.prems by (intro Cons.IH) simp_all
  moreover have "wait_for_metadata w = wait_for_metadata ?w"
    using Cons.prems by (subst wait_for_metadata.simps) (simp add: sleep1_Status)
  ultimately show ?case by simp
qed

lemma wait_found:
  "upcoming w = map Status ss @ Ctrl_C # rest \<Longrightarrow>
   \<exists>s \<in> set (reported w # ss). has_metadata s \<Longrightarrow>
   \<forall>s \<in> set (reported w # ss). state s \<noteq> seeding \<Longrightarrow>
   \<exists>w' ss'. wait_for_metadata w = (Returned (), w') \<and> disk_files w' = disk_files w \<and>
     upcoming w' = map Status ss' @ Ctrl_C # rest \<and>
     (\<forall>s \<in> set (reported w' # ss'). state s \<noteq> seeding)"
proof (induction ss arbitrary: w)
  case Nil
  then have "wait_for_metadata w = (Returned (), w)"
    by (subst wait_for_metadata.simps) simp
  with Nil show ?case by (intro exI [of _ w] exI [of _ "[]"]) simp
next
  case (Cons s ss)
  show ?case
  proof (cases "has_metadata (reported w)")
    case True
    then have "wait_for_metadata w = (Returned (), w)"
      by (subst wait_for_metadata.simps) simp
    with Cons.prems show ?thesis by (intro exI [of _ w] exI [of _ "s # ss"]) simp
  next
    case False
    let ?w = "w\<lparr>upcoming := map Status ss @ Ctrl_C # rest, reported := s, clock := Suc (clock w)\<rparr>"
    have "\<exists>w' ss'. wait_for_metadata ?w = (Returned (), w') \<and> disk_files w' = disk_files ?w \<and>
       upcoming w' = map Status ss' @ Ctrl_C # rest \<and>
       (\<forall>s \<in> set (reported w' # ss'). state s \<noteq> seeding)"
      using Cons.prems False by (intro Cons.IH) simp_all
    moreover have "wait_for_metadata w = wait_for_metadata ?w"
      using Cons.prems False by (subst wait_for_metadata.simps) (simp add: sleep1_Status)
    ultimately show ?thesis by simp
  qed
qed

lemma poll_interrupted:
  "upcoming w = map Status ss @ Ctrl_C # rest \<Longrightarrow>
   \<forall>s \<in> set (reported w # ss). state s \<noteq> seeding \<Longrightarrow>
   \<exists>w'. poll eng ses sf w = (Raised KeyboardInterrupt, w')"
proof (induction ss arbitrary: w)
  case Nil
  then show ?case
    by (subst poll.simps) (simp add: sleep1_Ctrl_C save_session_def Let_def)
next
  case (Cons s ss)
  define w2 where "w2 = (if clock w mod 10 = 0
      then save_session eng ses sf (w\<lparr>eta_shown := eta_shown w @ [eta_str (reported w)]\<rparr>)
      else w\<lparr>eta_shown := eta_shown w @ [eta_str (reported w)]\<rparr>)"
  have up: "upcoming w2 = Status s # map Status ss @ Ctrl_C # rest"
    using Cons.prems by (simp add: w2_def save_session_def)
  let ?w = "w2\<lparr>upcoming := map Status ss @ Ctrl_C # rest, reported := s, clock := Suc (clock w2)\<rparr>"
  have "\<exists>w'. poll eng ses sf ?w = (Raised KeyboardInterrupt, w')"
    using Cons.prems by (intro Cons.IH) simp_all
  moreover have "poll eng ses sf w = poll eng ses sf ?w"
    using Cons.prems
    by (subst poll.simps) (simp add: Let_def w2_def [symmetric] sleep1_Status [OF up])
  ultimately show ?case by simp
qed

lemma save_session_file:
  "disk_files (save_session eng ses sf w) sf = Some (lt_save_state eng ses)"
  by (simp add: save_session_def)

lemma example_submit:
  "submit example_engine ''magnet:?xt=urn:btih:c12f'' ''downloads'' ''torrent_session.json'' True
     (example_world Map.empty s ticks) =
   (Inr (Some \<lparr>loaded_state = None, settings = [(''listen_interfaces'', ''0.0.0.0:6881'')]\<rparr>),
    (example_world Map.empty s ticks)
      \<lparr>disk_dirs := {''downloads''},
       torrents := [\<lparr>save_path = ''downloads'', url = Some ''magnet:?xt=urn:btih:c12f'', ti = None\<rparr>]\<rparr>)"
  by (simp add: submit_def example_world_def example_engine_def path_exists_def
       load_session_def source_params_def startswith_def lt_session_def Let_def)

text \<open>
  Claim C10. Let the torrent be added and the user's interrupt arrive before the torrent is
  seeding. If no status up to the interrupt has metadata, the interrupt arrives in the wait
  for metadata: \<open>KeyboardInterrupt\<close> leaves \<open>download_torrent\<close> and the disk is as it was
  when the torrent was added, so no session was saved. Otherwise the interrupt arrives in the
  polling loop: the session is saved and \<open>download_torrent\<close> returns \<open>None\<close>.
\<close>

theorem interrupt_in_metadata_wait_propagates:
  assumes sub: "submit eng source dp sf ar w = (Inr (Some ses), w1)"
      and up: "upcoming w1 = map Status ss @ Ctrl_C # rest"
  shows "((\<forall>s \<in> set (reported w1 # ss). \<not> has_metadata s) \<longrightarrow>
            fst (download_torrent eng source dp sf ar w) = Raised KeyboardInterrupt \<and>
            disk_files (snd (download_torrent eng source dp sf ar w)) = disk_files w1 \<and>
            (disk_files w sf = None \<longrightarrow>
               disk_files (snd (download_torrent eng source dp sf ar w)) sf = None)) \<and>
         ((\<exists>s \<in> set (reported w1 # ss). has_metadata s) \<and>
          (\<forall>s \<in> set (reported w1 # ss). state s \<noteq> seeding) \<longrightarrow>
            fst (download_torrent eng source dp sf ar w) = Returned None \<and>
            disk_files (snd (download_torrent eng source dp sf ar w)) sf =
              Some (lt_save_state eng ses))"
proof (intro conjI impI)
  assume nm: "\<forall>s \<in> set (reported w1 # ss). \<not> has_metadata s"
  from wait_interrupted [OF up nm] obtain w' where
    w': "wait_for_metadata w1 = (Raised KeyboardInterrupt, w')" "disk_files w' = disk_files w1"
    by blast
  show "fst (download_torrent eng source dp sf ar w) = Raised KeyboardInterrupt"
    using sub w' by (simp add: download_torrent_def)
  show "disk_files (snd (download_torrent eng source dp sf ar w)) = disk_files w1"
    using sub w' by (simp add: download_torrent_def)
  assume "disk_files w sf = None"
  from submit_keeps_absent [OF sub this]
  show "disk_files (snd (download_torrent eng source dp sf ar w)) sf = None"
    using sub w' by (simp add: download_torrent_def)
next
  assume "(\<exists>s \<in> set (reported w1 # ss). has_metadata s) \<and>
          (\<forall>s \<in> set (reported w1 # ss). state s \<noteq> seeding)"
  then have m: "\<exists>s \<in> set (reported w1 # ss). has_metadata s"
    and ns: "\<forall>s \<in> set (reported w1 # ss). state s \<noteq> seeding" by blast+
  from wait_found [OF up m ns] obtain w2 ss' where
    w2: "wait_for_metadata w1 = (Returned (), w2)"
        "upcoming w2 = map Status ss' @ Ctrl_C # rest"
        "\<forall>s \<in> set (reported w2 # ss'). state s \<noteq> seeding"
    by blast
  from poll_interrupted [OF w2(2) w2(3)] obtain w3 where
    w3: "poll eng ses sf w2 = (Raised KeyboardInterrupt, w3)" by blast
  show "fst (download_torrent eng source dp sf ar w) = Returned None"
    using sub w2(1) w3 by (simp add: download_torrent_def)
  show "disk_files (snd (download_torrent eng source dp sf ar w)) sf =
          Some (lt_save_state eng ses)"
    using sub w2(1) w3 by (simp add: download_torrent_def save_session_file)
qed

theorem interrupt_in_metadata_wait_propagates_witness:
  "fst (download_torrent example_engine ''magnet:?xt=urn:btih:c12f'' ''downloads''
          ''torrent_session.json'' True
          (example_world Map.empty (example_status False 0 0)
             [Status (example_status False 0 0), Ctrl_C])) = Raised KeyboardInterrupt \<and>
   disk_files (snd (download_torrent example_engine ''magnet:?xt=urn:btih:c12f'' ''downloads''
          ''torrent_session.json'' True
          (example_world Map.empty (example_status False 0 0)
             [Status (example_status False 0 0), Ctrl_C]))) ''torrent_session.json'' = None \<and>
   fst (download_torrent example_engine ''magnet:?xt=urn:btih:c12f'' ''downloads''
          ''torrent_session.json'' True
          (example_world Map.empty (example_status False 0 0)
             [Status (example_status True 2048 184320), Ctrl_C])) = Returned None \<and>
   disk_files (snd (download_torrent example_engine ''magnet:?xt=urn:btih:c12f'' ''downloads''
          ''torrent_session.json'' True
          (example_world Map.empty (example_status False 0 0)
             [Status (example_status True 2048 184320), Ctrl_C]))) ''torrent_session.json'' = Some ''de''"
  using interrupt_in_metadata_wait_propagates
          [OF example_submit, of "example_status False 0 0"
             "[Status (example_status False 0 0), Ctrl_C]" "[example_status False 0 0]" "[]"]
        interrupt_in_metadata_wait_propagates
          [OF example_submit, of "example_status False 0 0"
             "[Status (example_status True 2048 184320), Ctrl_C]" "[example_status True 2048 184320]" "[]"]
  by (simp add: example_world_def example_status_def example_engine_def)


section \<open>Properties of gdrive_uploader.py\<close>

subsection \<open>A service without faults\<close>






lemma new_object_faults [simp]: "faults (new_object n p f d) = faults d"
  by (simp add: new_object_def)



lemma n_outcomes_simps [simp]:
  "n_outcomes (no_results\<lparr>failed := [p]\<rparr>) = 1"
  "n_outcomes (no_results\<lparr>skipped := [p]\<rparr>) = 1"
  "n_outcomes (no_results\<lparr>success := [p]\<rparr>) = 1"
  "n_outcomes no_results = 0"
  "n_outcomes (extend_results r r') = n_outcomes r + n_outcomes r'"
  by (simp_all add: n_outcomes_def no_results_def extend_results_def)

lemma files_add_stats [simp]: "files (add_stats a b) = files a + files b"
  by (simp add: add_stats_def)



lemmas drive_eval =
  upload_file_def file_exists_def folder_exists_def create_folder_def request_def new_object_def
  next_chunks.simps DEFAULT_CHUNK_SIZE_def basename_def join_def startswith_def endswith_def
  is_file_match_def is_folder_match_def is_Exception_def no_results_def extend_results_def
  Let_def empty_drive_def


subsection \<open>A single transfer attempt\<close>






subsection \<open>Options that the uploader does not read\<close>

text \<open>
  Claim C2 does not hold of the code: with the keyword arguments of an \<open>upload --dry-run\<close>
  command, \<open>upload_to_google_drive\<close> uploads the file.
\<close>

theorem dry_run_uploads:
  "upload_to_google_drive ''/content/notes.txt'' (File 12) 7
     (handle_upload_kwargs (example_args None True False)) (colab_ready, empty_drive []) =
   (Inr \<lparr>success = [''/content/notes.txt''], failed = [], skipped = []\<rparr>,
    colab_ready,
    \<lparr>objects = [\<lparr>obj_id = 1, obj_name = ''notes.txt'', obj_parent = 7,
                  obj_folder = False, obj_trashed = False\<rparr>],
     next_id = 2, faults = [],
     calls = [ListFiles ''notes.txt'' 7, ListFiles ''notes.txt'' 7, NextChunk ''notes.txt'' 7 0]\<rparr>)"
  by (simp add: drive_eval upload_to_google_drive_def handle_upload_kwargs_def example_args_def
        colab_ready_def get_drive_service_def)

text \<open>
  Claim C3 does not hold of the code: with \<open>include=['*.mp4']\<close> over a folder of
  \<open>movie.mp4\<close> and \<open>notes.txt\<close>, \<open>notes.txt\<close> is looked up and uploaded like \<open>movie.mp4\<close>.
\<close>

theorem include_pattern_ignored:
  "upload_to_google_drive ''/content/clips'' example_clips 7
     (handle_upload_kwargs (example_args (Some [''*.mp4'']) False False))
     (colab_ready, empty_drive []) =
   (Inr \<lparr>success = [''/content/clips/movie.mp4'', ''/content/clips/notes.txt''],
         failed = [], skipped = []\<rparr>,
    colab_ready,
    \<lparr>objects =
       [\<lparr>obj_id = 1, obj_name = ''clips'', obj_parent = 7, obj_folder = True, obj_trashed = False\<rparr>,
        \<lparr>obj_id = 2, obj_name = ''movie.mp4'', obj_parent = 1, obj_folder = False, obj_trashed = False\<rparr>,
        \<lparr>obj_id = 3, obj_name = ''notes.txt'', obj_parent = 1, obj_folder = False, obj_trashed = False\<rparr>],
     next_id = 4, faults = [],
     calls = [ListFolders ''clips'' 7, CreateFolder ''clips'' 7,
              ListFiles ''movie.mp4'' 1, ListFiles ''movie.mp4'' 1, NextChunk ''movie.mp4'' 1 0,
              ListFiles ''notes.txt'' 1, ListFiles ''notes.txt'' 1, NextChunk ''notes.txt'' 1 0]\<rparr>)"
  by (simp add: drive_eval upload_to_google_drive_def handle_upload_kwargs_def example_args_def
        colab_ready_def get_drive_service_def example_clips_def)

text \<open>
  Claim C4 does not hold of the code: with \<open>use_progress=True\<close> the uploader asks the
  service whether the file exists and uploads it, whatever a ledger may hold, and
  \<open>handle_upload\<close> with \<open>--no-resume\<close> stops at the name \<open>ProgressTracker\<close>, which nothing
  defines.
\<close>

theorem resume_consults_no_ledger:
  "upload_to_google_drive ''/content/notes.txt'' (File 12) 7
     (handle_upload_kwargs (example_args None False False)) (colab_ready, empty_drive []) =
   (Inr \<lparr>success = [''/content/notes.txt''], failed = [], skipped = []\<rparr>,
    colab_ready,
    \<lparr>objects = [\<lparr>obj_id = 1, obj_name = ''notes.txt'', obj_parent = 7,
                  obj_folder = False, obj_trashed = False\<rparr>],
     next_id = 2, faults = [],
     calls = [ListFiles ''notes.txt'' 7, ListFiles ''notes.txt'' 7, NextChunk ''notes.txt'' 7 0]\<rparr>) \<and>
   kw_use_progress (handle_upload_kwargs (example_args None False False)) = Some True \<and>
   handle_upload (example_args None False True) (File 12) (colab_ready, empty_drive []) =
   (Inl (NameError ''ProgressTracker''), colab_ready, empty_drive [])"
  by (simp add: drive_eval upload_to_google_drive_def handle_upload_kwargs_def example_args_def
        colab_ready_def get_drive_service_def handle_upload_def)

subsection \<open>Outcomes and the file count\<close>







subsection \<open>A second run\<close>













end
